theory Spec2Isabelle
  imports Complex_Main "HOL-Library.Sublist" "HOL-Library.AList"
begin

text \<open>
  A shallow embedding of the provider layer (llm\_providers.py), the summarisation
  endpoint (modern\_app.py, \<open>generate_summaries\<close>) and the text validator
  (document\_processor.py, \<open>validate_text_content\<close>).

  Python strings are \<open>string\<close>; a character stands for one code point below 256.
  Python floats (clock readings, response times) are idealised as \<open>real\<close>.
  Python's insertion-ordered dicts are association lists.
\<close>

section \<open>Python strings\<close>

text \<open>
  \<open>isspace\<close> is Python's \<open>str.isspace\<close> on the code points below 256;
  \<open>py_strip\<close> is \<open>str.strip()\<close> and \<open>py_split\<close> is \<open>str.split()\<close>
  without arguments; \<open>show_int\<close> is the decimal rendering an f-string gives an int.
\<close>

definition isspace :: "char \<Rightarrow> bool" where
  "isspace c = (of_char c \<in> {9, 10, 11, 12, 13, 28, 29, 30, 31, 32, 133, 160 :: nat})"

definition py_strip :: "string \<Rightarrow> string" where
  "py_strip s = rev (dropWhile isspace (rev (dropWhile isspace s)))"

fun split_from :: "string \<Rightarrow> string \<Rightarrow> string list" where
  "split_from cur [] = (if cur = [] then [] else [cur])"
| "split_from cur (c # cs) =
     (if isspace c then (if cur = [] then split_from [] cs else cur # split_from [] cs)
      else split_from (cur @ [c]) cs)"

definition py_split :: "string \<Rightarrow> string list" where
  "py_split s = split_from [] s"

fun show_nat :: "nat \<Rightarrow> string" where
  "show_nat n =
     (if n < 10 then [''0123456789'' ! n]
      else show_nat (n div 10) @ [''0123456789'' ! (n mod 10)])"

declare show_nat.simps [simp del]

definition show_int :: "int \<Rightarrow> string" where
  "show_int i = (if i < 0 then CHR ''-'' # show_nat (nat (- i)) else show_nat (nat i))"

text \<open>
  Not from the source: \<open>unwords\<close> builds a text from words separated by single
  spaces, and \<open>is_word\<close> says that a string is a word (non-empty, no whitespace).
  They serve to state what the word count of the validator counts.
\<close>

fun unwords :: "string list \<Rightarrow> string" where
  "unwords [] = []"
| "unwords [w] = w"
| "unwords (w # v # ws) = w @ CHR '' '' # unwords (v # ws)"

definition is_word :: "string \<Rightarrow> bool" where
  "is_word w = (w \<noteq> [] \<and> list_all (\<lambda>c. \<not> isspace c) w)"


section \<open>document\_processor.py\<close>

text \<open>
  \<open>DocumentProcessor.validate_text_content\<close>. The returned dict is the record
  \<open>validation\<close>; the defaults of the source are \<open>min_words = 50\<close> and
  \<open>max_words = 10000\<close>.
\<close>

record validation =
  valid :: bool
  error :: "string option"
  word_count :: int

definition validate_text_content :: "string \<Rightarrow> int \<Rightarrow> int \<Rightarrow> validation" where
  "validate_text_content text min_words max_words =
     (if text = [] \<or> py_strip text = [] then
        \<lparr>valid = False, error = Some ''Text content is empty'', word_count = 0\<rparr>
      else
        let words = py_split text;
            word_count = int (length words) in
        if word_count < min_words then
          \<lparr>valid = False,
           error = Some (''Text too short. Minimum '' @ show_int min_words
                         @ '' words required, got '' @ show_int word_count),
           word_count = word_count\<rparr>
        else if word_count > max_words then
          \<lparr>valid = False,
           error = Some (''Text too long. Maximum '' @ show_int max_words
                         @ '' words allowed, got '' @ show_int word_count),
           word_count = word_count\<rparr>
        else \<lparr>valid = True, error = None, word_count = word_count\<rparr>)"


section \<open>The environment of the providers\<close>

text \<open>
  The providers talk to two HTTP services, read the clock and the process environment.
  None of that is code of the repository, so it is an oracle: the record env says what the
  n-th effect of a run observes, and the record world is the state a run threads
  through: how many effects happened so far and which network requests were issued.
\<close>

text \<open>
  The requests a run can issue:
  \<^item> \<open>GetTags url\<close>: \<open>requests.get(f"{url}/api/tags", timeout=5)\<close>;
  \<^item> \<open>PostGenerate url model prompt num_predict\<close>:
    \<open>requests.post(f"{url}/api/generate", json=payload, timeout=120)\<close>;
  \<^item> \<open>ChatCreate key model prompt max_tokens\<close>:
    \<open>client.chat.completions.create(...)\<close> on a client built with \<open>key\<close>.
\<close>

datatype request =
    GetTags string
  | PostGenerate string string string int
  | ChatCreate string string string int

text \<open>
  What the probe observes. \<open>TagsRaise\<close>: the request raises. \<open>TagsReply status names\<close>:
  a reply with that status code, where \<open>names\<close> is the value of
  \<open>[model["name"] for model in response.json().get("models", [])]\<close>, or None when
  evaluating it raises (a body that is not JSON, an entry without a name).
\<close>

datatype tags_reply =
    TagsRaise
  | TagsReply int "string list option"

text \<open>
  A token count as a backend reports it: \<open>TokNone\<close> is None (or an absent key),
  \<open>TokInt n\<close> a value that the field \<open>token_count: Optional[int]\<close> of
  \<open>SummaryResponse\<close> accepts as \<open>n\<close>, \<open>TokBad msg\<close> a value that it rejects
  with the validation error \<open>msg\<close>.
\<close>

datatype tok = TokNone | TokInt int | TokBad string

text \<open>
  What the generate request of the local service observes. \<open>PostTimeout\<close>:
  \<open>requests.exceptions.Timeout\<close> is raised. \<open>PostRaise msg\<close>: any other exception
  is raised inside the try block (a transport failure, a body that is not JSON, a
  response that is not a string), with \<open>str(e) = msg\<close>. \<open>PostReply status response
  eval_count\<close>: a reply with that status code whose body, read only when the status is
  200, has \<open>result.get("response")\<close> (None: the key is absent) and
  \<open>result.get("eval_count")\<close>.

  What the chat completion of the cloud service observes. \<open>ChatRaise msg\<close>: an
  exception is raised inside the try block (by the call, or while reading
  \<open>response.choices[0].message.content.strip()\<close>), with \<open>str(e) = msg\<close>.
  \<open>ChatReply content usage\<close>: the content of the first choice, and
  \<open>response.usage.total_tokens\<close> (None when there is no usage).

  \<open>sdk\<close> is what \<open>from groq import Groq; Groq(api_key=...)\<close> does in
  \<open>GroqProvider.__init__\<close>: the import fails, a client is built, or the
  constructor raises.
\<close>

datatype post_reply =
    PostTimeout
  | PostRaise string
  | PostReply int "string option" tok

datatype chat_reply =
    ChatRaise string
  | ChatReply string "int option"

datatype sdk = SdkMissing | SdkOk | SdkRaise string

record env =
  getenv_GROQ_API_KEY :: "string option"
  groq_sdk :: sdk
  clock :: "nat \<Rightarrow> real"
  tags_net :: "nat \<Rightarrow> string \<Rightarrow> tags_reply"
  generate_net :: "nat \<Rightarrow> string \<Rightarrow> string \<Rightarrow> string \<Rightarrow> int \<Rightarrow> post_reply"
  chat_net :: "nat \<Rightarrow> string \<Rightarrow> string \<Rightarrow> string \<Rightarrow> int \<Rightarrow> chat_reply"

record world =
  tick :: nat
  trace :: "request list"

definition time_time :: "env \<Rightarrow> world \<Rightarrow> real \<times> world" where
  "time_time e w = (clock e (tick w), w\<lparr>tick := Suc (tick w)\<rparr>)"

definition requests_get_tags :: "env \<Rightarrow> string \<Rightarrow> world \<Rightarrow> tags_reply \<times> world" where
  "requests_get_tags e url w =
     (tags_net e (tick w) url,
      w\<lparr>tick := Suc (tick w), trace := trace w @ [GetTags url]\<rparr>)"

definition requests_post_generate ::
  "env \<Rightarrow> string \<Rightarrow> string \<Rightarrow> string \<Rightarrow> int \<Rightarrow> world \<Rightarrow> post_reply \<times> world" where
  "requests_post_generate e url mdl prompt num_predict w =
     (generate_net e (tick w) url mdl prompt num_predict,
      w\<lparr>tick := Suc (tick w), trace := trace w @ [PostGenerate url mdl prompt num_predict]\<rparr>)"

definition chat_completions_create ::
  "env \<Rightarrow> string \<Rightarrow> string \<Rightarrow> string \<Rightarrow> int \<Rightarrow> world \<Rightarrow> chat_reply \<times> world" where
  "chat_completions_create e key mdl prompt max_tokens w =
     (chat_net e (tick w) key mdl prompt max_tokens,
      w\<lparr>tick := Suc (tick w), trace := trace w @ [ChatCreate key mdl prompt max_tokens]\<rparr>)"

section \<open>llm\_providers.py\<close>

text \<open>
  \<open>truthy\<close> is the truth value Python gives an \<open>Optional[str]\<close>, and \<open>py_or\<close>
  is \<open>a or b\<close> on such values.

  The two provider classes are the constructors of \<open>provider\<close>. \<open>client\<close> is None
  or the key a Groq client was built with. The dict a generate operation returns is the
  record \<open>outcome\<close>; its \<open>error\<close> is None when the dict has no "error" key. The
  \<open>model_info\<close> tables and the name accessors play no part in the operations below and
  are left out.

  Every operation that has an effect takes the world and returns the new one. An
  operation that can raise returns a sum, with the message of the exception on the left.
\<close>

definition truthy :: "string option \<Rightarrow> bool" where
  "truthy v = (case v of None \<Rightarrow> False | Some s \<Rightarrow> s \<noteq> [])"

definition py_or :: "string option \<Rightarrow> string option \<Rightarrow> string option" where
  "py_or a b = (if truthy a then a else b)"

datatype provider =
    GroqProvider (model_name: string) (api_key: "string option") (client: "string option")
  | OllamaProvider (model_name: string) (base_url: string)

record outcome =
  summary :: string
  success :: bool
  response_time :: real
  token_count :: tok
  model :: string
  provider :: string
  error :: "string option"

definition summary_prompt :: "string \<Rightarrow> int \<Rightarrow> string" where
  "summary_prompt text max_length =
     ''Please provide a concise summary of the following text in approximately ''
     @ show_int max_length
     @ '' words. Focus on the main points and key information:''
     @ [CHR 0x0A, CHR 0x0A] @ text @ [CHR 0x0A, CHR 0x0A] @ ''Summary:''"

text \<open>
  \<open>GroqProvider.__init__\<close>: the key handed over, or else the environment variable;
  a client only for a non-empty key.
\<close>

definition GroqProvider_init :: "env \<Rightarrow> string \<Rightarrow> string option \<Rightarrow> string + provider" where
  "GroqProvider_init e mdl key =
     (let k = py_or key (getenv_GROQ_API_KEY e) in
      if truthy k then
        (case groq_sdk e of
           SdkMissing \<Rightarrow> Inr (GroqProvider mdl k None)
         | SdkOk \<Rightarrow> Inr (GroqProvider mdl k k)
         | SdkRaise msg \<Rightarrow> Inl msg)
      else Inr (GroqProvider mdl k None))"

definition GroqProvider_is_available :: "provider \<Rightarrow> bool" where
  "GroqProvider_is_available p = (client p \<noteq> None \<and> api_key p \<noteq> None)"

definition GroqProvider_generate_summary ::
  "env \<Rightarrow> provider \<Rightarrow> string \<Rightarrow> int \<Rightarrow> world \<Rightarrow> outcome \<times> world" where
  "GroqProvider_generate_summary e p text max_length w =
     (let (start_time, w1) = time_time e w in
      if \<not> GroqProvider_is_available p then
        (\<lparr>summary = ''Groq API key not configured'', success = False, response_time = 0,
          token_count = TokNone, model = model_name p, provider = ''Groq (Cloud)'',
          error = Some ''API key not provided''\<rparr>, w1)
      else
        let (reply, w2) = chat_completions_create e (the (client p)) (model_name p)
                            (summary_prompt text max_length) (max_length * 2) w1;
            (now, w3) = time_time e w2
        in case reply of
             ChatReply content usage \<Rightarrow>
               (\<lparr>summary = py_strip content, success = True,
                 response_time = now - start_time,
                 token_count = (case usage of None \<Rightarrow> TokNone | Some n \<Rightarrow> TokInt n),
                 model = model_name p, provider = ''Groq (Cloud)'', error = None\<rparr>, w3)
           | ChatRaise msg \<Rightarrow>
               (\<lparr>summary = ''Error generating summary: '' @ msg, success = False,
                 response_time = now - start_time, token_count = TokNone,
                 model = model_name p, provider = ''Groq (Cloud)'', error = Some msg\<rparr>, w3))"

definition OllamaProvider_is_available :: "env \<Rightarrow> provider \<Rightarrow> world \<Rightarrow> bool \<times> world" where
  "OllamaProvider_is_available e p w =
     (let (reply, w1) = requests_get_tags e (base_url p) w in
      (case reply of
         TagsRaise \<Rightarrow> False
       | TagsReply status names \<Rightarrow>
           if status = 200 then
             (case names of None \<Rightarrow> False
              | Some available_models \<Rightarrow> model_name p \<in> set available_models)
           else False,
       w1))"

definition OllamaProvider_generate_summary ::
  "env \<Rightarrow> provider \<Rightarrow> string \<Rightarrow> int \<Rightarrow> world \<Rightarrow> outcome \<times> world" where
  "OllamaProvider_generate_summary e p text max_length w =
     (let (start_time, w1) = time_time e w;
          (available, w2) = OllamaProvider_is_available e p w1
      in
      if \<not> available then
        (\<lparr>summary = ''Ollama model '' @ [CHR 0x27] @ model_name p @ [CHR 0x27]
             @ '' not available. Please ensure Ollama is running and model is installed.'',
          success = False, response_time = 0, token_count = TokNone,
          model = model_name p, provider = ''Ollama (Local)'',
          error = Some (''Model '' @ model_name p @ '' not available'')\<rparr>, w2)
      else
        let (reply, w3) = requests_post_generate e (base_url p) (model_name p)
                            (summary_prompt text max_length) (max_length * 2) w2;
            (now, w4) = time_time e w3
        in case reply of
             PostReply status response eval_count \<Rightarrow>
               if status = 200 then
                 (\<lparr>summary = py_strip (case response of None \<Rightarrow> [] | Some s \<Rightarrow> s),
                   success = True, response_time = now - start_time,
                   token_count = eval_count,
                   model = model_name p, provider = ''Ollama (Local)'', error = None\<rparr>, w4)
               else
                 (\<lparr>summary = ''Ollama API error: '' @ show_int status, success = False,
                   response_time = now - start_time, token_count = TokNone,
                   model = model_name p, provider = ''Ollama (Local)'',
                   error = Some (''API error: '' @ show_int status)\<rparr>, w4)
           | PostTimeout \<Rightarrow>
               (\<lparr>summary = ''Request timed out. Local model may be too large for available resources.'',
                 success = False, response_time = now - start_time, token_count = TokNone,
                 model = model_name p, provider = ''Ollama (Local)'',
                 error = Some ''Request timeout''\<rparr>, w4)
           | PostRaise msg \<Rightarrow>
               (\<lparr>summary = ''Error generating summary: '' @ msg, success = False,
                 response_time = now - start_time, token_count = TokNone,
                 model = model_name p, provider = ''Ollama (Local)'', error = Some msg\<rparr>, w4))"

fun generate_summary :: "env \<Rightarrow> provider \<Rightarrow> string \<Rightarrow> int \<Rightarrow> world \<Rightarrow> outcome \<times> world" where
  "generate_summary e (GroqProvider mdl key cl) text max_length w =
     GroqProvider_generate_summary e (GroqProvider mdl key cl) text max_length w"
| "generate_summary e (OllamaProvider mdl url) text max_length w =
     OllamaProvider_generate_summary e (OllamaProvider mdl url) text max_length w"

text \<open>
  \<open>DualLLMManager\<close>. Its two catalogs never change after construction and are
  constants here, in the order the source writes them (a Python dict keeps it).
  \<open>_get_available_ollama_models\<close> is \<open>get_available_ollama_models\<close>.
\<close>

record DualLLMManager =
  groq_api_key :: "string option"
  ollama_base_url :: string

definition groq_models :: "(string \<times> string) list" where
  "groq_models =
     [(''Groq - Llama 3.1 70B'', ''llama-3.1-70b-versatile''),
      (''Groq - Llama 3.1 8B'', ''llama-3.1-8b-instant''),
      (''Groq - Llama 3 70B'', ''llama3-70b-8192''),
      (''Groq - Llama 3 8B'', ''llama3-8b-8192''),
      (''Groq - Mixtral 8x7B'', ''mixtral-8x7b-32768''),
      (''Groq - Gemma 7B'', ''gemma-7b-it''),
      (''Groq - Gemma 2 9B'', ''gemma2-9b-it'')]"

definition ollama_models :: "(string \<times> string) list" where
  "ollama_models =
     [(''Ollama - Llama 3.1 8B'', ''llama3.1:8b''),
      (''Ollama - Llama 3.1 70B'', ''llama3.1:70b''),
      (''Ollama - Llama 3 8B'', ''llama3:8b''),
      (''Ollama - Mistral 7B'', ''mistral:7b''),
      (''Ollama - Gemma 7B'', ''gemma:7b''),
      (''Ollama - Gemma 2 9B'', ''gemma2:9b''),
      (''Ollama - Phi-3 Mini'', ''phi3:mini''),
      (''Ollama - CodeLlama 7B'', ''codellama:7b''),
      (''Ollama - Neural Chat 7B'', ''neural-chat:7b'')]"

definition get_available_providers :: "string list" where
  "get_available_providers = map fst groq_models @ map fst ollama_models"

definition get_available_ollama_models ::
  "env \<Rightarrow> DualLLMManager \<Rightarrow> world \<Rightarrow> string list \<times> world" where
  "get_available_ollama_models e m w =
     (let (reply, w1) = requests_get_tags e (ollama_base_url m) w in
      (case reply of
         TagsRaise \<Rightarrow> []
       | TagsReply status names \<Rightarrow>
           if status = 200 then
             (case names of None \<Rightarrow> []
              | Some installed_models \<Rightarrow>
                  map fst (filter (\<lambda>(display_name, mdl). mdl \<in> set installed_models)
                             ollama_models))
           else [],
       w1))"

definition get_enabled_providers ::
  "env \<Rightarrow> DualLLMManager \<Rightarrow> world \<Rightarrow> string list \<times> world" where
  "get_enabled_providers e m w =
     (let enabled = (if truthy (groq_api_key m) then map fst groq_models else []);
          (enabled_ollama, w1) = get_available_ollama_models e m w
      in (enabled @ enabled_ollama, w1))"

definition get_provider_instance ::
  "env \<Rightarrow> DualLLMManager \<Rightarrow> string \<Rightarrow> string + provider option" where
  "get_provider_instance e m provider_name =
     (case map_of groq_models provider_name of
        Some mdl \<Rightarrow>
          (case GroqProvider_init e mdl (groq_api_key m) of
             Inl exn \<Rightarrow> Inl exn
           | Inr p \<Rightarrow> Inr (Some p))
      | None \<Rightarrow>
          (case map_of ollama_models provider_name of
             Some mdl \<Rightarrow> Inr (Some (OllamaProvider mdl (ollama_base_url m)))
           | None \<Rightarrow> Inr None))"

definition DualLLMManager_generate_summary ::
  "env \<Rightarrow> DualLLMManager \<Rightarrow> string \<Rightarrow> string \<Rightarrow> int \<Rightarrow> world \<Rightarrow> (string + outcome) \<times> world" where
  "DualLLMManager_generate_summary e m provider_name text max_length w =
     (case get_provider_instance e m provider_name of
        Inl exn \<Rightarrow> (Inl exn, w)
      | Inr None \<Rightarrow>
          (Inr \<lparr>summary = ''Provider '' @ [CHR 0x27] @ provider_name @ [CHR 0x27] @ '' not found'',
                success = False, response_time = 0, token_count = TokNone,
                model = ''Unknown'', provider = ''Unknown'',
                error = Some (''Provider '' @ [CHR 0x27] @ provider_name @ [CHR 0x27]
                              @ '' not available'')\<rparr>, w)
      | Inr (Some p) \<Rightarrow>
          (let (r, w1) = generate_summary e p text max_length w in (Inr r, w1)))"

text \<open>
  \<open>generate_multiple_summaries\<close>: the loop stores each outcome under its label,
  \<open>results[provider_name] = ...\<close>, which overwrites an entry that is already there
  and keeps its position.
\<close>

fun generate_multiple_loop ::
  "env \<Rightarrow> DualLLMManager \<Rightarrow> string list \<Rightarrow> string \<Rightarrow> int \<Rightarrow> (string \<times> outcome) list \<Rightarrow> world
     \<Rightarrow> (string + (string \<times> outcome) list) \<times> world" where
  "generate_multiple_loop e m [] text max_length results w = (Inr results, w)"
| "generate_multiple_loop e m (provider_name # rest) text max_length results w =
     (case DualLLMManager_generate_summary e m provider_name text max_length w of
        (Inl exn, w1) \<Rightarrow> (Inl exn, w1)
      | (Inr r, w1) \<Rightarrow>
          generate_multiple_loop e m rest text max_length
            (AList.update provider_name r results) w1)"

definition generate_multiple_summaries ::
  "env \<Rightarrow> DualLLMManager \<Rightarrow> string list \<Rightarrow> string \<Rightarrow> int \<Rightarrow> world
     \<Rightarrow> (string + (string \<times> outcome) list) \<times> world" where
  "generate_multiple_summaries e m provider_names text max_length w =
     generate_multiple_loop e m provider_names text max_length [] w"

definition update_groq_api_key :: "DualLLMManager \<Rightarrow> string \<Rightarrow> DualLLMManager" where
  "update_groq_api_key m key = m\<lparr>groq_api_key := Some key\<rparr>"


section \<open>modern\_app.py\<close>

text \<open>
  The endpoint \<open>generate_summaries\<close> (POST /api/summarize). The request's fields
  \<open>text\<close>, \<open>models\<close> and \<open>max_length\<close> and the global \<open>llm_manager\<close> are
  its arguments. Building a \<open>SummaryResponse\<close> validates the token count; whatever is
  raised inside the loop body (by the manager or by the validation) yields the error row
  of the inner \<open>except\<close>. Nothing else in the body can raise, so the outer
  \<open>except\<close> has no counterpart. \<open>ErrorResponse msg\<close> is the dict
  \<open>{"success": False, "error": msg, "results": []}\<close>, and \<open>SummariesResponse\<close>
  the dict with "success", "message", "results" and "stats".
\<close>

record SummaryResponse =
  model :: string
  summary :: string
  response_time :: real
  token_count :: "int option"
  success :: bool
  error :: "string option"

definition SummaryResponse_init ::
  "string \<Rightarrow> string \<Rightarrow> real \<Rightarrow> tok \<Rightarrow> bool \<Rightarrow> string option \<Rightarrow> string + SummaryResponse" where
  "SummaryResponse_init mdl s t tc ok err =
     (case tc of
        TokBad msg \<Rightarrow> Inl msg
      | TokNone \<Rightarrow>
          Inr \<lparr>model = mdl, summary = s, response_time = t, token_count = None,
               success = ok, error = err\<rparr>
      | TokInt n \<Rightarrow>
          Inr \<lparr>model = mdl, summary = s, response_time = t, token_count = Some n,
               success = ok, error = err\<rparr>)"

definition error_response :: "string \<Rightarrow> string \<Rightarrow> SummaryResponse" where
  "error_response mdl exn =
     \<lparr>model = mdl, summary = [], response_time = 0, token_count = None,
      success = False, error = Some exn\<rparr>"

definition summary_row ::
  "env \<Rightarrow> DualLLMManager \<Rightarrow> string \<Rightarrow> string \<Rightarrow> int \<Rightarrow> world \<Rightarrow> SummaryResponse \<times> world" where
  "summary_row e m mdl text max_length w =
     (case DualLLMManager_generate_summary e m mdl text max_length w of
        (Inl exn, w1) \<Rightarrow> (error_response mdl exn, w1)
      | (Inr result, w1) \<Rightarrow>
          (case SummaryResponse_init mdl (outcome.summary result) (outcome.response_time result)
                  (outcome.token_count result) (outcome.success result)
                  (if \<not> outcome.success result then outcome.error result else None) of
             Inl exn \<Rightarrow> (error_response mdl exn, w1)
           | Inr row \<Rightarrow> (row, w1)))"

fun summaries_loop ::
  "env \<Rightarrow> DualLLMManager \<Rightarrow> string list \<Rightarrow> string \<Rightarrow> int \<Rightarrow> SummaryResponse list \<Rightarrow> world
     \<Rightarrow> SummaryResponse list \<times> world" where
  "summaries_loop e m [] text max_length results w = (results, w)"
| "summaries_loop e m (mdl # rest) text max_length results w =
     (let (row, w1) = summary_row e m mdl text max_length w
      in summaries_loop e m rest text max_length (results @ [row]) w1)"

record stats =
  total :: int
  successful :: int
  failed :: int
  avg_response_time :: real
  total_tokens :: int

datatype response =
    ErrorResponse string
  | SummariesResponse bool string "SummaryResponse list" stats

definition compute_stats :: "SummaryResponse list \<Rightarrow> stats" where
  "compute_stats results =
     (let successful_results = filter SummaryResponse.success results in
      \<lparr>total = int (length results),
       successful = int (length successful_results),
       failed = int (length results) - int (length successful_results),
       avg_response_time =
         (if successful_results \<noteq> [] then
            sum_list (map SummaryResponse.response_time successful_results)
              / real (length successful_results)
          else 0),
       total_tokens =
         sum_list (map (\<lambda>r. case SummaryResponse.token_count r of None \<Rightarrow> 0 | Some n \<Rightarrow> n)
                     successful_results)\<rparr>)"

definition generate_summaries ::
  "env \<Rightarrow> DualLLMManager \<Rightarrow> string \<Rightarrow> string list \<Rightarrow> int \<Rightarrow> world \<Rightarrow> response \<times> world" where
  "generate_summaries e llm_manager text models max_length w =
     (let (enabled, w1) = get_enabled_providers e llm_manager w in
      if enabled = [] then
        (ErrorResponse ''No API key configured. Please set up your Groq API key first.'', w1)
      else if py_strip text = [] then
        (ErrorResponse ''No text provided for summarization.'', w1)
      else if models = [] then
        (ErrorResponse ''No models selected for comparison.'', w1)
      else
        let (results, w2) = summaries_loop e llm_manager models text max_length [] w1;
            successful_results = filter SummaryResponse.success results
        in (SummariesResponse (length successful_results > 0)
              (''Generated '' @ show_nat (length successful_results) @ '' of ''
               @ show_nat (length results) @ '' summaries successfully.'')
              results (compute_stats results), w2))"

fun response_results :: "response \<Rightarrow> SummaryResponse list" where
  "response_results (ErrorResponse msg) = []"
| "response_results (SummariesResponse ok msg results st) = results"

section \<open>Provider handles as objects\<close>

text \<open>
  For the claim about replaced credentials the manager and the handles are objects:
  \<open>llm_manager\<close> is the global manager of modern\_app.py, \<open>objects\<close> the handles
  allocated so far, a handle's reference its index. \<open>get_provider_instance\<close>
  allocates, \<open>update_groq_api_key\<close> assigns to the manager's attribute.
\<close>

record store =
  llm_manager :: DualLLMManager
  objects :: "provider list"

definition store_update_groq_api_key :: "string \<Rightarrow> store \<Rightarrow> store" where
  "store_update_groq_api_key key s =
     s\<lparr>llm_manager := update_groq_api_key (llm_manager s) key\<rparr>"

definition store_get_provider_instance ::
  "env \<Rightarrow> string \<Rightarrow> store \<Rightarrow> (string + nat option) \<times> store" where
  "store_get_provider_instance e provider_name s =
     (case get_provider_instance e (llm_manager s) provider_name of
        Inl exn \<Rightarrow> (Inl exn, s)
      | Inr None \<Rightarrow> (Inr None, s)
      | Inr (Some p) \<Rightarrow> (Inr (Some (length (objects s))), s\<lparr>objects := objects s @ [p]\<rparr>))"

definition deref :: "store \<Rightarrow> nat \<Rightarrow> provider option" where
  "deref s h = (if h < length (objects s) then Some (objects s ! h) else None)"

definition store_generate_summary ::
  "env \<Rightarrow> nat \<Rightarrow> string \<Rightarrow> int \<Rightarrow> store \<Rightarrow> world \<Rightarrow> (outcome \<times> world) option" where
  "store_generate_summary e h text max_length s w =
     (case deref s h of
        None \<Rightarrow> None
      | Some p \<Rightarrow> Some (generate_summary e p text max_length w))"

section \<open>Sample environments\<close>

text \<open>
  Concrete inputs for evaluating the theorems: an environment where every request
  fails, one where the local service has two models installed and both backends answer,
  and managers without and with a key.
\<close>

definition world0 :: world where
  "world0 = \<lparr>tick = 0, trace = []\<rparr>"

definition env_offline :: env where
  "env_offline =
     \<lparr>getenv_GROQ_API_KEY = None, groq_sdk = SdkOk, clock = (\<lambda>n. real n),
      tags_net = (\<lambda>n url. TagsRaise),
      generate_net = (\<lambda>n url mdl prompt k. PostRaise ''Connection refused''),
      chat_net = (\<lambda>n key mdl prompt k. ChatRaise ''Connection error.'')\<rparr>"

definition env_online :: env where
  "env_online =
     \<lparr>getenv_GROQ_API_KEY = None, groq_sdk = SdkOk, clock = (\<lambda>n. real n),
      tags_net = (\<lambda>n url. TagsReply 200 (Some [''llama3:8b'', ''mistral:7b''])),
      generate_net = (\<lambda>n url mdl prompt k. PostReply 200 (Some '' A local summary. '') (TokInt 42)),
      chat_net = (\<lambda>n key mdl prompt k. ChatReply ''A cloud summary.'' (Some 100))\<rparr>"

definition manager_no_key :: DualLLMManager where
  "manager_no_key = \<lparr>groq_api_key = None, ollama_base_url = ''http://localhost:11434''\<rparr>"

definition manager_with_key :: DualLLMManager where
  "manager_with_key = \<lparr>groq_api_key = Some ''gsk_test'', ollama_base_url = ''http://localhost:11434''\<rparr>"


section \<open>Splitting and trimming\<close>

lemma list_all_dropWhile: "list_all P (dropWhile P s) \<longleftrightarrow> list_all P s"
  by (induction s) auto

lemma py_strip_blank: "py_strip s = [] \<longleftrightarrow> list_all isspace s"
proof -
  have "py_strip s = [] \<longleftrightarrow> list_all isspace (dropWhile isspace s)"
    by (simp add: py_strip_def list_all_iff)
  then show ?thesis
    by (simp only: list_all_dropWhile)
qed

lemma split_from_nonempty: "cur \<noteq> [] \<Longrightarrow> split_from cur s \<noteq> []"
  by (induction s arbitrary: cur) auto

lemma split_from_blank: "split_from [] s = [] \<longleftrightarrow> list_all isspace s"
  by (induction s) (auto simp: split_from_nonempty)

lemma py_split_blank: "py_split s = [] \<longleftrightarrow> list_all isspace s"
  by (simp add: py_split_def split_from_blank)

lemma split_from_word:
  "list_all (\<lambda>c. \<not> isspace c) w \<Longrightarrow> split_from cur (w @ rest) = split_from (cur @ w) rest"
  by (induction w arbitrary: cur) auto

lemma isspace_space: "isspace CHR '' ''"
  by (simp add: isspace_def)

lemma split_from_unwords:
  "list_all is_word ws \<Longrightarrow> split_from [] (unwords ws) = ws"
proof (induction ws rule: unwords.induct)
  case 1
  then show ?case by simp
next
  case (2 w)
  then have "split_from [] (w @ []) = split_from ([] @ w) []"
    by (intro split_from_word) (simp add: is_word_def)
  with 2 show ?case by (simp add: is_word_def)
next
  case (3 w v ws)
  from "3.prems" have rest: "list_all is_word (v # ws)" and "is_word w"
    by simp_all
  then have w: "w \<noteq> []" "list_all (\<lambda>c. \<not> isspace c) w"
    by (simp_all add: is_word_def)
  have "split_from [] (w @ CHR '' '' # unwords (v # ws)) = split_from ([] @ w) (CHR '' '' # unwords (v # ws))"
    using w(2) by (rule split_from_word)
  also have "\<dots> = w # split_from [] (unwords (v # ws))"
    using w(1) by (simp add: isspace_space)
  finally show ?case using "3.IH" [OF rest] by simp
qed

lemma py_split_unwords: "list_all is_word ws \<Longrightarrow> py_split (unwords ws) = ws"
  by (simp add: py_split_def split_from_unwords)


lemma validate_text_content_default:
  "validate_text_content text 50 10000 =
     (if list_all isspace text then
        \<lparr>valid = False, error = Some ''Text content is empty'', word_count = 0\<rparr>
      else if int (length (py_split text)) < 50 then
        \<lparr>valid = False,
         error = Some (''Text too short. Minimum 50 words required, got ''
                       @ show_int (int (length (py_split text)))),
         word_count = int (length (py_split text))\<rparr>
      else if int (length (py_split text)) > 10000 then
        \<lparr>valid = False,
         error = Some (''Text too long. Maximum 10000 words allowed, got ''
                       @ show_int (int (length (py_split text)))),
         word_count = int (length (py_split text))\<rparr>
      else \<lparr>valid = True, error = None, word_count = int (length (py_split text))\<rparr>)"
proof -
  have blank: "(text = [] \<or> py_strip text = []) \<longleftrightarrow> list_all isspace text"
    by (auto simp: py_strip_blank)
  have fifty: "show_int 50 = ''50''" and max: "show_int 10000 = ''10000''"
    by (simp_all add: show_int_def show_nat.simps)
  show ?thesis
    unfolding validate_text_content_def blank fifty max Let_def by simp
qed

section \<open>The text validator\<close>

text \<open>
  Claim C5. With the default bounds the validator fails with the "empty" error exactly
  on the texts that consist of whitespace only; on every other text it fails with
  "too short" exactly when the text has fewer than 50 words, with "too long" exactly
  when it has more than 10000 words, and is valid exactly from 50 to 10000 words, in
  which case it reports no error and returns the word count. The word count of a text
  made of \<open>n\<close> words separated by single spaces is \<open>n\<close>, so that such a text is
  valid exactly for \<open>n\<close> from 50 to 10000. The validator is a function of its three
  arguments only.
\<close>

theorem validate_text_content_bounds:
  "(validation.error (validate_text_content text 50 10000) = Some ''Text content is empty''
      \<longleftrightarrow> list_all isspace text)
   \<and> (\<not> list_all isspace text \<longrightarrow>
        (validation.error (validate_text_content text 50 10000)
           = Some (''Text too short. Minimum 50 words required, got ''
                   @ show_int (int (length (py_split text))))
         \<longleftrightarrow> length (py_split text) < 50))
   \<and> (validation.error (validate_text_content text 50 10000)
           = Some (''Text too long. Maximum 10000 words allowed, got ''
                   @ show_int (int (length (py_split text))))
         \<longleftrightarrow> length (py_split text) > 10000)
   \<and> (valid (validate_text_content text 50 10000)
         \<longleftrightarrow> 50 \<le> length (py_split text) \<and> length (py_split text) \<le> 10000)
   \<and> (valid (validate_text_content text 50 10000) \<longrightarrow>
         validation.error (validate_text_content text 50 10000) = None
         \<and> word_count (validate_text_content text 50 10000) = int (length (py_split text)))
   \<and> (list_all is_word ws \<longrightarrow>
         word_count (validate_text_content (unwords ws) 50 10000) = int (length ws)
         \<and> (valid (validate_text_content (unwords ws) 50 10000)
              \<longleftrightarrow> 50 \<le> length ws \<and> length ws \<le> 10000))"
proof -
  have zero: "list_all isspace text \<Longrightarrow> length (py_split text) = 0"
    using py_split_blank [of "text"] by simp
  have words: "word_count (validate_text_content (unwords ws) 50 10000) = int (length ws)
      \<and> (valid (validate_text_content (unwords ws) 50 10000)
           \<longleftrightarrow> 50 \<le> length ws \<and> length ws \<le> 10000)"
    if "list_all is_word ws"
    using py_split_blank [of "unwords ws"] py_split_unwords [OF that]
    by (auto simp: validate_text_content_default)
  show ?thesis
    using zero words by (auto simp: validate_text_content_default)
qed

theorem validate_text_content_bounds_witness:
  "validation.error (validate_text_content (unwords (replicate 49 ''ab'')) 50 10000)
     = Some ''Text too short. Minimum 50 words required, got 49''
   \<and> \<not> valid (validate_text_content (unwords (replicate 49 ''ab'')) 50 10000)
   \<and> valid (validate_text_content (unwords (replicate 50 ''ab'')) 50 10000)
   \<and> word_count (validate_text_content (unwords (replicate 50 ''ab'')) 50 10000) = 50
   \<and> valid (validate_text_content (unwords (replicate 10000 ''ab'')) 50 10000)
   \<and> \<not> valid (validate_text_content (unwords (replicate 10001 ''ab'')) 50 10000)
   \<and> validation.error (validate_text_content (unwords (replicate 10001 ''ab'')) 50 10000)
     = Some ''Text too long. Maximum 10000 words allowed, got 10001''
   \<and> validation.error (validate_text_content '' '' 50 10000) = Some ''Text content is empty''"
proof -
  have w: "is_word ''ab''"
    by (simp add: is_word_def isspace_def)
  have ws: "list_all is_word (replicate n ''ab'')" for n
    by (simp add: list_all_length w)
  have split: "py_split (unwords (replicate n ''ab'')) = replicate n ''ab''" for n
    using ws by (rule py_split_unwords)
  have nb: "\<not> list_all isspace (unwords (replicate n ''ab''))" if "0 < n" for n
    using py_split_blank [of "unwords (replicate n ''ab'')"] that by (simp add: split)
  have sh: "show_int 49 = ''49''" "show_int 10001 = ''10001''"
    by (simp_all add: show_int_def show_nat.simps)
  from validate_text_content_bounds [of "unwords (replicate 49 ''ab'')" "replicate 49 ''ab''"]
    validate_text_content_bounds [of "unwords (replicate 10001 ''ab'')" "replicate 50 ''ab''"]
    validate_text_content_bounds [of "'' ''" "replicate 10000 ''ab''"]
    validate_text_content_bounds [of "'' ''" "replicate 10001 ''ab''"]
    ws nb [of 49] nb [of 10001]
  show ?thesis
    by (simp add: split sh isspace_space)
qed

section \<open>Evaluation at the sample environments\<close>

lemmas run_defs =
  GroqProvider_generate_summary_def GroqProvider_is_available_def GroqProvider_init_def
  OllamaProvider_generate_summary_def OllamaProvider_is_available_def
  DualLLMManager_generate_summary_def get_provider_instance_def
  time_time_def requests_get_tags_def requests_post_generate_def chat_completions_create_def
  truthy_def py_or_def groq_models_def ollama_models_def
  env_offline_def env_online_def manager_no_key_def manager_with_key_def world0_def

section \<open>Outcomes of the providers\<close>

lemma GroqProvider_generate_summary_error_iff:
  "(outcome.error (fst (GroqProvider_generate_summary e p text max_length w)) \<noteq> None)
     = (\<not> outcome.success (fst (GroqProvider_generate_summary e p text max_length w)))"
  by (simp add: GroqProvider_generate_summary_def Let_def split: prod.splits chat_reply.splits)

lemma OllamaProvider_generate_summary_error_iff:
  "(outcome.error (fst (OllamaProvider_generate_summary e p text max_length w)) \<noteq> None)
     = (\<not> outcome.success (fst (OllamaProvider_generate_summary e p text max_length w)))"
  by (simp add: OllamaProvider_generate_summary_def Let_def split: prod.splits post_reply.splits)

lemma generate_summary_error_iff:
  "(outcome.error (fst (generate_summary e p text max_length w)) \<noteq> None)
     = (\<not> outcome.success (fst (generate_summary e p text max_length w)))"
  by (cases p) (simp_all add: GroqProvider_generate_summary_error_iff
      OllamaProvider_generate_summary_error_iff del: not_None_eq)

text \<open>
  Claim C2. In every outcome that \<open>GroqProvider.generate_summary\<close> or
  \<open>OllamaProvider.generate_summary\<close> returns, and in every outcome that
  \<open>DualLLMManager.generate_summary\<close> returns (from a provider or synthesised for an
  unknown label), the "error" key is present exactly when "success" is false. This holds
  for every provider value, every environment and every state of the world.
\<close>

theorem outcome_error_iff_failed:
  "((outcome.error (fst (GroqProvider_generate_summary e p text max_length w)) \<noteq> None)
      = (\<not> outcome.success (fst (GroqProvider_generate_summary e p text max_length w))))
   \<and> ((outcome.error (fst (OllamaProvider_generate_summary e p text max_length w)) \<noteq> None)
      = (\<not> outcome.success (fst (OllamaProvider_generate_summary e p text max_length w))))
   \<and> (\<forall>r. fst (DualLLMManager_generate_summary e m provider_name text max_length w) = Inr r
          \<longrightarrow> ((outcome.error r \<noteq> None) = (\<not> outcome.success r)))"
proof -
  have "(outcome.error r \<noteq> None) = (\<not> outcome.success r)"
    if "fst (DualLLMManager_generate_summary e m provider_name text max_length w) = Inr r" for r
  proof (cases "get_provider_instance e m provider_name")
    case (Inl exn)
    with that show ?thesis
      by (simp add: DualLLMManager_generate_summary_def)
  next
    case (Inr found)
    show ?thesis
    proof (cases found)
      case None
      with Inr that show ?thesis
        by (auto simp: DualLLMManager_generate_summary_def)
    next
      case (Some p')
      with Inr that have "r = fst (generate_summary e p' text max_length w)"
        by (simp add: DualLLMManager_generate_summary_def split: prod.splits)
      then show ?thesis
        using generate_summary_error_iff [of e p' "text" max_length w] by simp
    qed
  qed
  then show ?thesis
    using GroqProvider_generate_summary_error_iff OllamaProvider_generate_summary_error_iff
    by blast
qed


theorem outcome_error_iff_failed_witness:
  "outcome.error (fst (GroqProvider_generate_summary env_offline
       (GroqProvider ''llama3-8b-8192'' (Some ''gsk_test'') (Some ''gsk_test''))
       ''some text'' 150 world0)) \<noteq> None
   \<and> outcome.error (fst (OllamaProvider_generate_summary env_online
       (OllamaProvider ''llama3:8b'' ''http://localhost:11434'') ''some text'' 150 world0)) = None
   \<and> (\<exists>r. fst (DualLLMManager_generate_summary env_online manager_with_key
               ''Groq - Llama 3 8B'' ''some text'' 150 world0) = Inr r
          \<and> outcome.success r \<and> outcome.error r = None)"
proof -
  have cloud_fails: "\<not> outcome.success (fst (GroqProvider_generate_summary env_offline
       (GroqProvider ''llama3-8b-8192'' (Some ''gsk_test'') (Some ''gsk_test''))
       ''some text'' 150 world0))"
    by (simp add: run_defs)
  have local_ok: "outcome.success (fst (OllamaProvider_generate_summary env_online
       (OllamaProvider ''llama3:8b'' ''http://localhost:11434'') ''some text'' 150 world0))"
    by (simp add: run_defs)
  define r where "r = \<lparr>outcome.summary = ''A cloud summary.'', success = True,
      response_time = 2, token_count = TokInt 100, model = ''llama3-8b-8192'',
      provider = ''Groq (Cloud)'', error = None\<rparr>"
  have r: "fst (DualLLMManager_generate_summary env_online manager_with_key
               ''Groq - Llama 3 8B'' ''some text'' 150 world0) = Inr r"
    by (simp add: run_defs r_def Let_def py_strip_def isspace_def)
  have ok: "outcome.success r"
    by (simp add: r_def)
  from cloud_fails local_ok r ok
    outcome_error_iff_failed [of env_offline
      "GroqProvider ''llama3-8b-8192'' (Some ''gsk_test'') (Some ''gsk_test'')"
      "''some text''" 150 world0]
    outcome_error_iff_failed [of env_online
      "OllamaProvider ''llama3:8b'' ''http://localhost:11434''"
      "''some text''" 150 world0 manager_with_key "''Groq - Llama 3 8B''"]
  show ?thesis
    by (auto simp del: not_None_eq)
qed

section \<open>Credentials, unknown labels and the enabled listing\<close>

lemma GroqProvider_init_no_credential:
  "\<not> truthy (py_or key (getenv_GROQ_API_KEY e)) \<Longrightarrow>
   GroqProvider_init e mdl key = Inr (GroqProvider mdl (py_or key (getenv_GROQ_API_KEY e)) None)"
  by (simp add: GroqProvider_init_def Let_def)

lemma GroqProvider_unavailable_outcome:
  "\<not> GroqProvider_is_available p \<Longrightarrow>
   GroqProvider_generate_summary e p text max_length w =
     (\<lparr>outcome.summary = ''Groq API key not configured'', success = False, response_time = 0,
       token_count = TokNone, model = model_name p, provider = ''Groq (Cloud)'',
       error = Some ''API key not provided''\<rparr>,
      w\<lparr>tick := Suc (tick w)\<rparr>)"
  by (simp add: GroqProvider_generate_summary_def time_time_def)

text \<open>
  Claim C3. When neither the key handed to the constructor nor the GROQ\_API\_KEY
  environment variable holds a non-empty credential, construction succeeds, the handle is
  not available, and its generate operation returns the failed outcome with the error
  "API key not provided" for every text and target length; it only reads the clock, so
  the trace of network requests is unchanged.
\<close>

theorem groq_without_credential:
  assumes "\<not> truthy (py_or key (getenv_GROQ_API_KEY e))"
  shows "\<exists>p. GroqProvider_init e mdl key = Inr p
           \<and> \<not> GroqProvider_is_available p
           \<and> generate_summary e p text max_length w =
               (\<lparr>outcome.summary = ''Groq API key not configured'', success = False,
                 response_time = 0, token_count = TokNone, model = mdl,
                 provider = ''Groq (Cloud)'', error = Some ''API key not provided''\<rparr>,
                w\<lparr>tick := Suc (tick w)\<rparr>)
           \<and> trace (snd (generate_summary e p text max_length w)) = trace w"
proof -
  let ?p = "GroqProvider mdl (py_or key (getenv_GROQ_API_KEY e)) None"
  have init: "GroqProvider_init e mdl key = Inr ?p"
    using assms by (rule GroqProvider_init_no_credential)
  have unavailable: "\<not> GroqProvider_is_available ?p"
    by (simp add: GroqProvider_is_available_def)
  have run: "generate_summary e ?p text max_length w =
      (\<lparr>outcome.summary = ''Groq API key not configured'', success = False,
        response_time = 0, token_count = TokNone, model = mdl,
        provider = ''Groq (Cloud)'', error = Some ''API key not provided''\<rparr>,
       w\<lparr>tick := Suc (tick w)\<rparr>)"
    using GroqProvider_unavailable_outcome [OF unavailable] by simp
  from init unavailable run show ?thesis
    by (intro exI [of _ ?p]) simp
qed

theorem groq_without_credential_witness:
  "generate_summary env_offline (GroqProvider ''llama3-8b-8192'' None None) ''some text'' 150 world0
     = (\<lparr>outcome.summary = ''Groq API key not configured'', success = False,
         response_time = 0, token_count = TokNone, model = ''llama3-8b-8192'',
         provider = ''Groq (Cloud)'', error = Some ''API key not provided''\<rparr>,
        \<lparr>tick = 1, trace = []\<rparr>)"
proof -
  have none: "\<not> truthy (py_or None (getenv_GROQ_API_KEY env_offline))"
    by (simp add: truthy_def py_or_def env_offline_def)
  have init: "GroqProvider_init env_offline ''llama3-8b-8192'' None
                = Inr (GroqProvider ''llama3-8b-8192'' None None)"
    by (simp add: GroqProvider_init_def truthy_def py_or_def env_offline_def)
  from groq_without_credential [OF none, of "''llama3-8b-8192''" "''some text''" 150 world0]
  show ?thesis
    by (simp add: init world0_def)
qed

text \<open>
  Claim C7. For a label in neither catalog \<open>get_provider_instance\<close> returns None
  (the value \<open>Inr None\<close>, not an exception), \<open>DualLLMManager.generate_summary\<close>
  turns it into one failed outcome with the error "Provider '<label>' not available",
  and the endpoint's row for the label carries that error. The world is returned as it
  was: no request is issued and the clock is not read.
\<close>

theorem unknown_label_not_found:
  assumes "provider_name \<notin> set get_available_providers"
  shows "get_provider_instance e m provider_name = Inr None
         \<and> DualLLMManager_generate_summary e m provider_name text max_length w =
             (Inr \<lparr>outcome.summary = ''Provider '' @ [CHR 0x27] @ provider_name @ [CHR 0x27] @ '' not found'',
                   success = False, response_time = 0, token_count = TokNone,
                   model = ''Unknown'', provider = ''Unknown'',
                   error = Some (''Provider '' @ [CHR 0x27] @ provider_name @ [CHR 0x27]
                                 @ '' not available'')\<rparr>, w)
         \<and> summary_row e m provider_name text max_length w =
             (\<lparr>model = provider_name,
               summary = ''Provider '' @ [CHR 0x27] @ provider_name @ [CHR 0x27] @ '' not found'',
               response_time = 0, token_count = None, success = False,
               error = Some (''Provider '' @ [CHR 0x27] @ provider_name @ [CHR 0x27]
                             @ '' not available'')\<rparr>, w)"
proof -
  from assms have "map_of groq_models provider_name = None"
    and "map_of ollama_models provider_name = None"
    by (simp_all add: get_available_providers_def map_of_eq_None_iff)
  then have none: "get_provider_instance e m provider_name = Inr None"
    by (simp add: get_provider_instance_def)
  then show ?thesis
    by (simp add: DualLLMManager_generate_summary_def summary_row_def SummaryResponse_init_def)
qed

theorem unknown_label_not_found_witness:
  "get_provider_instance env_online manager_with_key ''GPT-9'' = Inr None
   \<and> snd (DualLLMManager_generate_summary env_online manager_with_key ''GPT-9'' ''some text'' 150 world0)
       = world0
   \<and> SummaryResponse.error (fst (summary_row env_online manager_with_key ''GPT-9'' ''some text'' 150 world0))
       = Some (''Provider '' @ [CHR 0x27] @ ''GPT-9'' @ [CHR 0x27] @ '' not available'')"
proof -
  have "''GPT-9'' \<notin> set get_available_providers"
    by (simp add: get_available_providers_def groq_models_def ollama_models_def)
  from unknown_label_not_found [OF this, of env_online manager_with_key "''some text''" 150 world0]
  show ?thesis
    by simp
qed

text \<open>
  Claim C10. Whatever the credential and whatever the probe of the local service
  answers, the enabled labels are a subsequence of the full catalog: they are the Groq
  labels (all of them or none) followed by a subsequence of the Ollama labels.
\<close>

theorem enabled_subseq_available:
  "subseq (fst (get_enabled_providers e m w)) get_available_providers
   \<and> (\<exists>cloud local. fst (get_enabled_providers e m w) = cloud @ local
         \<and> (cloud = [] \<or> cloud = map fst groq_models)
         \<and> subseq local (map fst ollama_models))"
proof -
  obtain local where local: "fst (get_available_ollama_models e m w) = local"
    and sub: "subseq local (map fst ollama_models)"
    by (auto simp: get_available_ollama_models_def requests_get_tags_def subseq_map
        split: tags_reply.splits option.splits)
  define cloud where "cloud = (if truthy (groq_api_key m) then map fst groq_models else [])"
  have enabled: "fst (get_enabled_providers e m w) = cloud @ local"
    using local by (auto simp: get_enabled_providers_def cloud_def split: prod.splits)
  have cloud: "cloud = [] \<or> cloud = map fst groq_models"
    by (simp add: cloud_def)
  then have "subseq cloud (map fst groq_models)"
    by auto
  from this sub have "subseq (cloud @ local) get_available_providers"
    unfolding get_available_providers_def by (rule list_emb_append_mono)
  with enabled cloud sub show ?thesis
    by auto
qed

section \<open>Local models that are not installed\<close>

lemma distinct_ollama_labels: "distinct (map fst ollama_models)"
  by (simp add: ollama_models_def)

lemma ollama_label_not_groq:
  "map_of ollama_models label = Some mdl \<Longrightarrow> label \<notin> set (map fst groq_models)"
  by (auto simp: ollama_models_def groq_models_def split: if_splits)

lemma ollama_label_filtered:
  assumes "map_of ollama_models label = Some mdl" and "mdl \<notin> set installed_models"
  shows "label \<notin> set (map fst (filter (\<lambda>(display_name, mdl). mdl \<in> set installed_models)
                                  ollama_models))"
proof
  assume "label \<in> set (map fst (filter (\<lambda>(display_name, mdl). mdl \<in> set installed_models)
                                   ollama_models))"
  then obtain mdl' where entry: "(label, mdl') \<in> set ollama_models"
    and installed: "mdl' \<in> set installed_models"
    by auto
  from entry have "map_of ollama_models label = Some mdl'"
    using distinct_ollama_labels by simp
  with assms installed show False
    by simp
qed

text \<open>
  Claim C6. When the probe of the local service reports a model list that does not
  contain the provider's model identifier, \<open>is_available\<close> returns False and no
  label of the Ollama catalog with that identifier is among the enabled labels; when the
  probe that \<open>generate_summary\<close> performs (after reading the clock) reports such a
  list, the outcome is the failed one with the error "Model <id> not available", and the
  only request issued is the probe.
\<close>

theorem ollama_model_not_installed:
  "(tags_net e (tick w) url = TagsReply status (Some installed_models)
      \<and> mdl \<notin> set installed_models \<longrightarrow>
        \<not> fst (OllamaProvider_is_available e (OllamaProvider mdl url) w)
        \<and> (\<forall>label m. map_of ollama_models label = Some mdl \<and> ollama_base_url m = url \<longrightarrow>
               label \<notin> set (fst (get_enabled_providers e m w))))
   \<and> (tags_net e (Suc (tick w)) url = TagsReply status (Some installed_models)
      \<and> mdl \<notin> set installed_models \<longrightarrow>
        generate_summary e (OllamaProvider mdl url) text max_length w =
          (\<lparr>outcome.summary = ''Ollama model '' @ [CHR 0x27] @ mdl @ [CHR 0x27]
              @ '' not available. Please ensure Ollama is running and model is installed.'',
            success = False, response_time = 0, token_count = TokNone,
            model = mdl, provider = ''Ollama (Local)'',
            error = Some (''Model '' @ mdl @ '' not available'')\<rparr>,
           \<lparr>tick = Suc (Suc (tick w)), trace = trace w @ [GetTags url]\<rparr>))"
proof -
  have probe: "\<not> fst (OllamaProvider_is_available e (OllamaProvider mdl url) w)"
    if "tags_net e (tick w) url = TagsReply status (Some installed_models)"
      and "mdl \<notin> set installed_models"
    using that by (simp add: OllamaProvider_is_available_def requests_get_tags_def)
  have listing: "label \<notin> set (fst (get_enabled_providers e m w))"
    if reply: "tags_net e (tick w) url = TagsReply status (Some installed_models)"
      and absent: "mdl \<notin> set installed_models"
      and label: "map_of ollama_models label = Some mdl" and url: "ollama_base_url m = url"
    for label m
  proof -
    have cloud: "label \<notin> set (map fst groq_models)"
      using label by (rule ollama_label_not_groq)
    have "fst (get_available_ollama_models e m w) =
        (if status = 200 then
           map fst (filter (\<lambda>(display_name, mdl). mdl \<in> set installed_models) ollama_models)
         else [])"
      using reply url by (simp add: get_available_ollama_models_def requests_get_tags_def)
    then have local: "label \<notin> set (fst (get_available_ollama_models e m w))"
      using ollama_label_filtered [OF label absent] by (simp split: if_splits)
    from cloud local show ?thesis
      by (auto simp: get_enabled_providers_def split: prod.splits)
  qed
  have forced: "generate_summary e (OllamaProvider mdl url) text max_length w =
          (\<lparr>outcome.summary = ''Ollama model '' @ [CHR 0x27] @ mdl @ [CHR 0x27]
              @ '' not available. Please ensure Ollama is running and model is installed.'',
            success = False, response_time = 0, token_count = TokNone,
            model = mdl, provider = ''Ollama (Local)'',
            error = Some (''Model '' @ mdl @ '' not available'')\<rparr>,
           \<lparr>tick = Suc (Suc (tick w)), trace = trace w @ [GetTags url]\<rparr>)"
    if "tags_net e (Suc (tick w)) url = TagsReply status (Some installed_models)"
      and "mdl \<notin> set installed_models"
    using that
    by (simp add: OllamaProvider_generate_summary_def OllamaProvider_is_available_def
        requests_get_tags_def time_time_def)
  from probe listing forced show ?thesis
    by blast
qed

theorem ollama_model_not_installed_witness:
  "\<not> fst (OllamaProvider_is_available env_online
             (OllamaProvider ''gemma:7b'' ''http://localhost:11434'') world0)
   \<and> ''Ollama - Gemma 7B'' \<notin> set (fst (get_enabled_providers env_online manager_with_key world0))
   \<and> outcome.error (fst (generate_summary env_online
          (OllamaProvider ''gemma:7b'' ''http://localhost:11434'') ''some text'' 150 world0))
       = Some ''Model gemma:7b not available''
   \<and> trace (snd (generate_summary env_online
          (OllamaProvider ''gemma:7b'' ''http://localhost:11434'') ''some text'' 150 world0))
       = [GetTags ''http://localhost:11434'']"
proof -
  have now: "tags_net env_online (tick world0) ''http://localhost:11434''
               = TagsReply 200 (Some [''llama3:8b'', ''mistral:7b''])"
    and later: "tags_net env_online (Suc (tick world0)) ''http://localhost:11434''
               = TagsReply 200 (Some [''llama3:8b'', ''mistral:7b''])"
    by (simp_all add: env_online_def)
  have absent: "''gemma:7b'' \<notin> set [''llama3:8b'', ''mistral:7b'']"
    by simp
  have label: "map_of ollama_models ''Ollama - Gemma 7B'' = Some ''gemma:7b''"
    by (simp add: ollama_models_def)
  have url: "ollama_base_url manager_with_key = ''http://localhost:11434''"
    by (simp add: manager_with_key_def)
  from ollama_model_not_installed [of env_online world0 "''http://localhost:11434''" 200
      "[''llama3:8b'', ''mistral:7b'']" "''gemma:7b''" "''some text''" 150]
    now later absent label url
  show ?thesis
    by (simp add: world0_def)
qed

section \<open>The summarisation endpoint\<close>

lemma summary_row_model:
  "SummaryResponse.model (fst (summary_row e m mdl text max_length w)) = mdl"
  by (simp add: summary_row_def SummaryResponse_init_def error_response_def
      split: prod.splits sum.splits tok.splits)

lemma summaries_loop_models:
  "map SummaryResponse.model (fst (summaries_loop e m models text max_length results w))
     = map SummaryResponse.model results @ models"
proof (induction models arbitrary: results w)
  case Nil
  then show ?case by simp
next
  case (Cons mdl rest)
  obtain row w1 where row: "summary_row e m mdl text max_length w = (row, w1)"
    by (cases "summary_row e m mdl text max_length w")
  then have "SummaryResponse.model row = mdl"
    using summary_row_model [of e m mdl "text" max_length w] by simp
  with row Cons.IH [of "results @ [row]" w1] show ?case
    by simp
qed

lemma generate_summaries_cases:
  "fst (generate_summaries e m text models max_length w) =
     (if fst (get_enabled_providers e m w) = [] then
        ErrorResponse ''No API key configured. Please set up your Groq API key first.''
      else if list_all isspace text then
        ErrorResponse ''No text provided for summarization.''
      else if models = [] then
        ErrorResponse ''No models selected for comparison.''
      else
        (let results = fst (summaries_loop e m models text max_length []
                              (snd (get_enabled_providers e m w)))
         in SummariesResponse (0 < length (filter SummaryResponse.success results))
              (''Generated '' @ show_nat (length (filter SummaryResponse.success results))
               @ '' of '' @ show_nat (length results) @ '' summaries successfully.'')
              results (compute_stats results)))"
  by (simp add: generate_summaries_def py_strip_blank Let_def split: prod.splits)

lemma length_filter_complement:
  "int (length xs) - int (length (filter P xs)) = int (length (filter (\<lambda>x. \<not> P x) xs))"
  using sum_length_filter_compl [of P xs] by simp

text \<open>
  Claim C8. Whenever \<open>generate_summaries\<close> returns a response with statistics,
  they are functions of the returned outcome sequence: total is its length, successful
  the number of successful outcomes, failed is total minus successful (which is the
  number of failed outcomes), the average response time is the sum of the response
  times of the successful outcomes divided by their number, and 0 when there is none,
  and the token total is the sum of the token counts of the successful outcomes, an
  absent count adding 0. Response times are reals here; the rounding of Python's floats
  is not modelled.
\<close>

theorem stats_of_results:
  assumes "generate_summaries e m text models max_length w
             = (SummariesResponse ok msg results st, w')"
  shows "total st = int (length results)
       \<and> successful st = int (length (filter SummaryResponse.success results))
       \<and> failed st = total st - successful st
       \<and> failed st = int (length (filter (\<lambda>r. \<not> SummaryResponse.success r) results))
       \<and> avg_response_time st =
           (if filter SummaryResponse.success results = [] then 0
            else sum_list (map SummaryResponse.response_time
                             (filter SummaryResponse.success results))
                 / real (length (filter SummaryResponse.success results)))
       \<and> total_tokens st =
           sum_list (map (\<lambda>r. case SummaryResponse.token_count r of None \<Rightarrow> 0 | Some n \<Rightarrow> n)
                       (filter SummaryResponse.success results))"
proof -
  from assms have "fst (generate_summaries e m text models max_length w)
      = SummariesResponse ok msg results st"
    by simp
  then have "st = compute_stats results"
    by (auto simp: generate_summaries_cases Let_def split: if_splits)
  then show ?thesis
    by (simp add: compute_stats_def Let_def length_filter_complement)
qed


lemmas app_defs =
  generate_summaries_def get_enabled_providers_def get_available_ollama_models_def
  summary_row_def SummaryResponse_init_def error_response_def compute_stats_def
  generate_multiple_summaries_def summary_prompt_def show_int_def show_nat.simps
  py_strip_def isspace_def Let_def

theorem stats_of_results_witness:
  "avg_response_time (compute_stats
      [\<lparr>SummaryResponse.model = ''Groq - Llama 3 8B'', summary = ''A cloud summary.'',
         response_time = 2, token_count = Some 100, success = True, error = None\<rparr>,
       \<lparr>SummaryResponse.model = ''GPT-9'',
         summary = ''Provider '' @ [CHR 0x27] @ ''GPT-9'' @ [CHR 0x27] @ '' not found'',
         response_time = 0, token_count = None, success = False,
         error = Some (''Provider '' @ [CHR 0x27] @ ''GPT-9'' @ [CHR 0x27] @ '' not available'')\<rparr>,
       \<lparr>SummaryResponse.model = ''Ollama - Llama 3 8B'', summary = ''A local summary.'',
         response_time = 3, token_count = Some 42, success = True, error = None\<rparr>]) = 5 / 2
   \<and> fst (generate_summaries env_online manager_with_key ''some text''
            [''Groq - Llama 3 8B'', ''GPT-9'', ''Ollama - Llama 3 8B''] 150 world0)
       = SummariesResponse True ''Generated 2 of 3 summaries successfully.''
           [\<lparr>SummaryResponse.model = ''Groq - Llama 3 8B'', summary = ''A cloud summary.'',
              response_time = 2, token_count = Some 100, success = True, error = None\<rparr>,
            \<lparr>SummaryResponse.model = ''GPT-9'',
              summary = ''Provider '' @ [CHR 0x27] @ ''GPT-9'' @ [CHR 0x27] @ '' not found'',
              response_time = 0, token_count = None, success = False,
              error = Some (''Provider '' @ [CHR 0x27] @ ''GPT-9'' @ [CHR 0x27] @ '' not available'')\<rparr>,
            \<lparr>SummaryResponse.model = ''Ollama - Llama 3 8B'', summary = ''A local summary.'',
              response_time = 3, token_count = Some 42, success = True, error = None\<rparr>]
           \<lparr>total = 3, successful = 2, failed = 1, avg_response_time = 5 / 2,
             total_tokens = 142\<rparr>"
proof -
  obtain r w' where run: "generate_summaries env_online manager_with_key ''some text''
            [''Groq - Llama 3 8B'', ''GPT-9'', ''Ollama - Llama 3 8B''] 150 world0 = (r, w')"
    by (cases "generate_summaries env_online manager_with_key ''some text''
            [''Groq - Llama 3 8B'', ''GPT-9'', ''Ollama - Llama 3 8B''] 150 world0")
  have r: "r = SummariesResponse True ''Generated 2 of 3 summaries successfully.''
           [\<lparr>SummaryResponse.model = ''Groq - Llama 3 8B'', summary = ''A cloud summary.'',
              response_time = 2, token_count = Some 100, success = True, error = None\<rparr>,
            \<lparr>SummaryResponse.model = ''GPT-9'',
              summary = ''Provider '' @ [CHR 0x27] @ ''GPT-9'' @ [CHR 0x27] @ '' not found'',
              response_time = 0, token_count = None, success = False,
              error = Some (''Provider '' @ [CHR 0x27] @ ''GPT-9'' @ [CHR 0x27] @ '' not available'')\<rparr>,
            \<lparr>SummaryResponse.model = ''Ollama - Llama 3 8B'', summary = ''A local summary.'',
              response_time = 3, token_count = Some 42, success = True, error = None\<rparr>]
           (compute_stats
           [\<lparr>SummaryResponse.model = ''Groq - Llama 3 8B'', summary = ''A cloud summary.'',
              response_time = 2, token_count = Some 100, success = True, error = None\<rparr>,
            \<lparr>SummaryResponse.model = ''GPT-9'',
              summary = ''Provider '' @ [CHR 0x27] @ ''GPT-9'' @ [CHR 0x27] @ '' not found'',
              response_time = 0, token_count = None, success = False,
              error = Some (''Provider '' @ [CHR 0x27] @ ''GPT-9'' @ [CHR 0x27] @ '' not available'')\<rparr>,
            \<lparr>SummaryResponse.model = ''Ollama - Llama 3 8B'', summary = ''A local summary.'',
              response_time = 3, token_count = Some 42, success = True, error = None\<rparr>])"
    using run by (simp add: run_defs app_defs)
  from stats_of_results [OF run [unfolded r]] run r show ?thesis
    by (simp add: compute_stats_def)
qed

section \<open>Outcomes per requested label\<close>

lemma generate_multiple_loop_keys:
  assumes "generate_multiple_loop e m provider_names text max_length results w = (Inr d, w')"
    and "distinct (map fst results)"
  shows "distinct (map fst d) \<and> set (map fst d) = set (map fst results) \<union> set provider_names"
  using assms
proof (induction provider_names arbitrary: results w)
  case Nil
  then show ?case by simp
next
  case (Cons provider_name rest)
  obtain r w1 where step:
    "DualLLMManager_generate_summary e m provider_name text max_length w = (Inr r, w1)"
    and rest: "generate_multiple_loop e m rest text max_length
                 (AList.update provider_name r results) w1 = (Inr d, w')"
    using Cons.prems(1) by (auto split: prod.splits sum.splits)
  have "distinct (map fst (AList.update provider_name r results))"
    using Cons.prems(2) by (simp add: distinct_update)
  from Cons.IH [OF rest this] show ?case
    by (auto simp: update_keys)
qed

lemma generate_multiple_summaries_keys:
  assumes "fst (generate_multiple_summaries e m provider_names text max_length w) = Inr d"
  shows "distinct (map fst d) \<and> set (map fst d) = set provider_names
         \<and> length d = card (set provider_names)"
proof -
  obtain w' where "generate_multiple_loop e m provider_names text max_length [] w = (Inr d, w')"
    using assms by (cases "generate_multiple_loop e m provider_names text max_length [] w")
      (simp add: generate_multiple_summaries_def)
  from generate_multiple_loop_keys [OF this] have keys: "distinct (map fst d)"
    and set: "set (map fst d) = set provider_names"
    by simp_all
  from keys have "card (set (map fst d)) = length (map fst d)"
    by (rule distinct_card)
  with keys set show ?thesis
    by simp
qed

lemma generate_summaries_models:
  assumes "fst (get_enabled_providers e m w) \<noteq> []" and "py_strip text \<noteq> []"
  shows "map SummaryResponse.model
           (response_results (fst (generate_summaries e m text models max_length w))) = models"
  using assms
  by (cases "models = []")
    (simp_all add: generate_summaries_cases py_strip_blank Let_def summaries_loop_models)

text \<open>
  Claim C1, as amended. When at least one provider is enabled and the text is not blank,
  \<open>generate_summaries\<close> returns exactly one outcome per requested label, in
  request order, each carrying its label, so a label requested twice yields two outcomes.
  When no provider is enabled it returns no outcome at all. The manager's bulk
  operation \<open>generate_multiple_summaries\<close> returns a dict keyed by label: one entry
  per distinct requested label, however often the label was requested.
\<close>

theorem dispatch_outcome_labels:
  "(fst (get_enabled_providers e m w) \<noteq> [] \<and> py_strip text \<noteq> [] \<longrightarrow>
      map SummaryResponse.model
        (response_results (fst (generate_summaries e m text models max_length w))) = models
      \<and> length (response_results (fst (generate_summaries e m text models max_length w)))
          = length models)
   \<and> (fst (get_enabled_providers e m w) = [] \<longrightarrow>
        response_results (fst (generate_summaries e m text models max_length w)) = [])
   \<and> (\<forall>d. fst (generate_multiple_summaries e m models text max_length w) = Inr d \<longrightarrow>
        distinct (map fst d) \<and> set (map fst d) = set models
        \<and> length d = card (set models))"
proof -
  have rows: "map SummaryResponse.model
        (response_results (fst (generate_summaries e m text models max_length w))) = models"
    if "fst (get_enabled_providers e m w) \<noteq> []" and "py_strip text \<noteq> []"
    using that by (rule generate_summaries_models)
  then have count: "length (response_results (fst (generate_summaries e m text models max_length w)))
          = length models"
    if "fst (get_enabled_providers e m w) \<noteq> []" and "py_strip text \<noteq> []"
    using that by (metis length_map)
  have gate: "response_results (fst (generate_summaries e m text models max_length w)) = []"
    if "fst (get_enabled_providers e m w) = []"
    using that by (simp add: generate_summaries_cases)
  from rows count gate generate_multiple_summaries_keys show ?thesis
    by blast
qed


text \<open>
  The claim as it was stated fails in two places: two requests for the same label
  leave one entry in the dict of \<open>generate_multiple_summaries\<close>, and with no
  provider enabled \<open>generate_summaries\<close> returns no outcome for a requested label
  and a non-blank text.
\<close>

theorem dispatch_outcome_labels_counterexample:
  "fst (generate_multiple_summaries env_online manager_no_key
          [''Ollama - Llama 3 8B'', ''Ollama - Llama 3 8B''] ''some text'' 150 world0)
     = Inr [(''Ollama - Llama 3 8B'',
             \<lparr>outcome.summary = ''A local summary.'', success = True, response_time = 3,
               token_count = TokInt 42, model = ''llama3:8b'', provider = ''Ollama (Local)'',
               error = None\<rparr>)]
   \<and> response_results (fst (generate_summaries env_offline manager_no_key ''some text''
          [''Groq - Llama 3 8B''] 150 world0)) = []"
  by (simp add: run_defs app_defs)

theorem dispatch_outcome_labels_witness:
  "map SummaryResponse.model (response_results (fst (generate_summaries env_online
       manager_with_key ''some text'' [''Groq - Llama 3 8B'', ''GPT-9'', ''Groq - Llama 3 8B'']
       150 world0))) = [''Groq - Llama 3 8B'', ''GPT-9'', ''Groq - Llama 3 8B'']
   \<and> length (response_results (fst (generate_summaries env_online
       manager_with_key ''some text'' [''Groq - Llama 3 8B'', ''GPT-9'', ''Groq - Llama 3 8B'']
       150 world0))) = 3
   \<and> response_results (fst (generate_summaries env_offline manager_no_key ''some text''
       [''Groq - Llama 3 8B'', ''GPT-9'', ''Groq - Llama 3 8B''] 150 world0)) = []
   \<and> (\<exists>d. fst (generate_multiple_summaries env_online manager_with_key
               [''Groq - Llama 3 8B'', ''GPT-9'', ''Groq - Llama 3 8B''] ''some text'' 150 world0)
            = Inr d
          \<and> map fst d = [''Groq - Llama 3 8B'', ''GPT-9''] \<and> length d = 2)"
proof -
  have enabled: "fst (get_enabled_providers env_online manager_with_key world0) \<noteq> []"
    and disabled: "fst (get_enabled_providers env_offline manager_no_key world0) = []"
    by (simp_all add: run_defs app_defs)
  have nonblank: "py_strip ''some text'' \<noteq> []"
    by (simp add: py_strip_def isspace_def)
  obtain d where bulk: "fst (generate_multiple_summaries env_online manager_with_key
               [''Groq - Llama 3 8B'', ''GPT-9'', ''Groq - Llama 3 8B''] ''some text'' 150 world0)
            = Inr d"
    and keys: "map fst d = [''Groq - Llama 3 8B'', ''GPT-9'']"
    by (simp add: run_defs app_defs)
  from enabled disabled nonblank bulk keys
    dispatch_outcome_labels [of env_online manager_with_key world0 "''some text''"
      "[''Groq - Llama 3 8B'', ''GPT-9'', ''Groq - Llama 3 8B'']" 150]
    dispatch_outcome_labels [of env_offline manager_no_key world0 "''some text''"
      "[''Groq - Llama 3 8B'', ''GPT-9'', ''Groq - Llama 3 8B'']" 150]
  show ?thesis
    by (auto simp: card_insert_if)
qed

lemma compute_stats_all_failed:
  "filter SummaryResponse.success results = [] \<Longrightarrow>
   compute_stats results =
     \<lparr>total = int (length results), successful = 0, failed = int (length results),
      avg_response_time = 0, total_tokens = 0\<rparr>"
  by (simp add: compute_stats_def)

text \<open>
  Claim C4, as amended. \<open>generate_summaries\<close> returns the error response (no
  outcomes, no statistics) exactly when no provider is enabled, the text is blank or no
  label is requested. In every other case it returns the aggregate response with one
  outcome per requested label and the statistics of those outcomes, also when every
  outcome failed: then the success flag is False and the statistics are total = failed
  = number of labels, successful = 0, average 0 and token total 0.
\<close>

theorem dispatch_abort_conditions:
  "((\<exists>msg. fst (generate_summaries e m text models max_length w) = ErrorResponse msg)
      \<longleftrightarrow> fst (get_enabled_providers e m w) = [] \<or> py_strip text = [] \<or> models = [])
   \<and> (fst (get_enabled_providers e m w) \<noteq> [] \<and> py_strip text \<noteq> [] \<and> models \<noteq> [] \<longrightarrow>
        (\<exists>ok msg results.
            fst (generate_summaries e m text models max_length w)
              = SummariesResponse ok msg results (compute_stats results)
            \<and> map SummaryResponse.model results = models
            \<and> ok = (filter SummaryResponse.success results \<noteq> [])
            \<and> (filter SummaryResponse.success results = [] \<longrightarrow>
                 compute_stats results =
                   \<lparr>total = int (length models), successful = 0,
                    failed = int (length models), avg_response_time = 0,
                    total_tokens = 0\<rparr>)))"
proof -
  have abort: "(\<exists>msg. fst (generate_summaries e m text models max_length w) = ErrorResponse msg)
      \<longleftrightarrow> fst (get_enabled_providers e m w) = [] \<or> py_strip text = [] \<or> models = []"
    by (simp add: generate_summaries_cases py_strip_blank Let_def)
  have run: "\<exists>ok msg results.
            fst (generate_summaries e m text models max_length w)
              = SummariesResponse ok msg results (compute_stats results)
            \<and> map SummaryResponse.model results = models
            \<and> ok = (filter SummaryResponse.success results \<noteq> [])
            \<and> (filter SummaryResponse.success results = [] \<longrightarrow>
                 compute_stats results =
                   \<lparr>total = int (length models), successful = 0,
                    failed = int (length models), avg_response_time = 0,
                    total_tokens = 0\<rparr>)"
    if enabled: "fst (get_enabled_providers e m w) \<noteq> []" and nonblank: "py_strip text \<noteq> []"
      and models: "models \<noteq> []"
  proof -
    define results where "results = fst (summaries_loop e m models text max_length []
                              (snd (get_enabled_providers e m w)))"
    have labels: "map SummaryResponse.model results = models"
      by (simp add: results_def summaries_loop_models)
    then have len: "length results = length models"
      by (metis length_map)
    have resp: "fst (generate_summaries e m text models max_length w)
        = SummariesResponse (filter SummaryResponse.success results \<noteq> [])
            (''Generated '' @ show_nat (length (filter SummaryResponse.success results))
             @ '' of '' @ show_nat (length results) @ '' summaries successfully.'')
            results (compute_stats results)"
      using enabled nonblank models
      by (simp add: generate_summaries_cases py_strip_blank Let_def results_def)
    have "compute_stats results =
        \<lparr>total = int (length models), successful = 0, failed = int (length models),
         avg_response_time = 0, total_tokens = 0\<rparr>"
      if "filter SummaryResponse.success results = []"
      using compute_stats_all_failed [OF that] len by simp
    with resp labels show ?thesis
      by blast
  qed
  from abort run show ?thesis
    by blast
qed

text \<open>
  The claim as it was stated fails: with a non-blank text and two requested labels the
  whole dispatch is refused when no provider is enabled (no credential, local service
  unreachable), which is not a failure of input validation.
\<close>

theorem dispatch_abort_conditions_counterexample:
  "generate_summaries env_offline manager_no_key ''some text''
       [''Groq - Llama 3 8B'', ''Ollama - Llama 3 8B''] 150 world0
     = (ErrorResponse ''No API key configured. Please set up your Groq API key first.'',
        \<lparr>tick = 1, trace = [GetTags ''http://localhost:11434'']\<rparr>)
   \<and> py_strip ''some text'' = ''some text''"
  by (simp add: run_defs app_defs)

theorem dispatch_abort_conditions_witness:
  "fst (generate_summaries env_offline manager_with_key ''some text''
         [''Groq - Llama 3 8B'', ''Ollama - Llama 3 8B''] 150 world0)
     = SummariesResponse False ''Generated 0 of 2 summaries successfully.''
         [\<lparr>SummaryResponse.model = ''Groq - Llama 3 8B'',
            summary = ''Error generating summary: Connection error.'',
            response_time = 2, token_count = None, success = False,
            error = Some ''Connection error.''\<rparr>,
          \<lparr>SummaryResponse.model = ''Ollama - Llama 3 8B'',
            summary = ''Ollama model '' @ [CHR 0x27] @ ''llama3:8b'' @ [CHR 0x27]
              @ '' not available. Please ensure Ollama is running and model is installed.'',
            response_time = 0, token_count = None, success = False,
            error = Some ''Model llama3:8b not available''\<rparr>]
         \<lparr>total = 2, successful = 0, failed = 2, avg_response_time = 0, total_tokens = 0\<rparr>
   \<and> (\<exists>msg. fst (generate_summaries env_offline manager_no_key ''some text''
         [''Groq - Llama 3 8B'', ''Ollama - Llama 3 8B''] 150 world0) = ErrorResponse msg)"
proof -
  have enabled: "fst (get_enabled_providers env_offline manager_with_key world0) \<noteq> []"
    and disabled: "fst (get_enabled_providers env_offline manager_no_key world0) = []"
    by (simp_all add: run_defs app_defs)
  have nonblank: "py_strip ''some text'' \<noteq> []"
    by (simp add: py_strip_def isspace_def)
  have run: "fst (generate_summaries env_offline manager_with_key ''some text''
         [''Groq - Llama 3 8B'', ''Ollama - Llama 3 8B''] 150 world0)
     = SummariesResponse False ''Generated 0 of 2 summaries successfully.''
         [\<lparr>SummaryResponse.model = ''Groq - Llama 3 8B'',
            summary = ''Error generating summary: Connection error.'',
            response_time = 2, token_count = None, success = False,
            error = Some ''Connection error.''\<rparr>,
          \<lparr>SummaryResponse.model = ''Ollama - Llama 3 8B'',
            summary = ''Ollama model '' @ [CHR 0x27] @ ''llama3:8b'' @ [CHR 0x27]
              @ '' not available. Please ensure Ollama is running and model is installed.'',
            response_time = 0, token_count = None, success = False,
            error = Some ''Model llama3:8b not available''\<rparr>]
         \<lparr>total = 2, successful = 0, failed = 2, avg_response_time = 0, total_tokens = 0\<rparr>"
    by (simp add: run_defs app_defs)
  from enabled disabled nonblank run
    dispatch_abort_conditions [of env_offline manager_with_key "''some text''"
      "[''Groq - Llama 3 8B'', ''Ollama - Llama 3 8B'']" 150 world0]
    dispatch_abort_conditions [of env_offline manager_no_key "''some text''"
      "[''Groq - Llama 3 8B'', ''Ollama - Llama 3 8B'']" 150 world0]
  show ?thesis
    by simp
qed

section \<open>Replacing the credential\<close>

lemma objects_after_updates:
  "objects (fold store_update_groq_api_key keys s) = objects s"
  by (induction keys arbitrary: s) (simp_all add: store_update_groq_api_key_def)

lemma deref_after_updates:
  "deref (fold store_update_groq_api_key keys s) h = deref s h"
  by (simp add: deref_def objects_after_updates)

lemma store_get_provider_instance_deref:
  assumes "store_get_provider_instance e provider_name s = (Inr (Some h), s1)"
  obtains p where "deref s1 h = Some p"
    and "get_provider_instance e (llm_manager s) provider_name = Inr (Some p)"
  using assms
  by (auto simp: store_get_provider_instance_def deref_def
      split: sum.splits option.splits)

lemma GroqProvider_available_request:
  assumes "client p = Some k" and "api_key p \<noteq> None"
  shows "trace (snd (GroqProvider_generate_summary e p text max_length w))
           = trace w @ [ChatCreate k (model_name p) (summary_prompt text max_length)
                          (max_length * 2)]"
  using assms
  by (simp add: GroqProvider_generate_summary_def GroqProvider_is_available_def
      time_time_def chat_completions_create_def split: chat_reply.splits)

text \<open>
  Claim C9. The manager and the handles are objects of a store; resolving a label
  allocates a new handle. Any sequence of \<open>update_groq_api_key\<close> calls changes the
  manager only: the resolved handle is the same object afterwards and its generate
  operation behaves as before. A Groq handle holds the credential that
  \<open>GroqProvider.__init__\<close> computed at resolution (the manager's key of that moment,
  or GROQ\_API\_KEY when that key is empty), and when the manager's key was non-empty
  the request it issues after the updates is made with that key.
\<close>

theorem handle_keeps_credential:
  assumes "store_get_provider_instance e provider_name s = (Inr (Some h), s1)"
  shows "deref (fold store_update_groq_api_key keys s1) h = deref s1 h
       \<and> store_generate_summary e h text max_length (fold store_update_groq_api_key keys s1) w
           = store_generate_summary e h text max_length s1 w
       \<and> (\<forall>mdl. map_of groq_models provider_name = Some mdl \<longrightarrow>
             (\<exists>c. deref (fold store_update_groq_api_key keys s1) h
                    = Some (GroqProvider mdl
                         (py_or (groq_api_key (llm_manager s)) (getenv_GROQ_API_KEY e)) c)))
       \<and> (\<forall>mdl k. map_of groq_models provider_name = Some mdl
               \<and> groq_api_key (llm_manager s) = Some k \<and> k \<noteq> [] \<and> groq_sdk e = SdkOk \<longrightarrow>
             (\<exists>r w'. store_generate_summary e h text max_length
                        (fold store_update_groq_api_key keys s1) w = Some (r, w')
                  \<and> trace w' = trace w @ [ChatCreate k mdl (summary_prompt text max_length)
                                             (max_length * 2)]))"
proof -
  have frame: "deref (fold store_update_groq_api_key keys s1) h = deref s1 h"
    by (rule deref_after_updates)
  then have same: "store_generate_summary e h text max_length
        (fold store_update_groq_api_key keys s1) w
      = store_generate_summary e h text max_length s1 w"
    by (simp add: store_generate_summary_def)
  obtain p where handle: "deref s1 h = Some p"
    and resolved: "get_provider_instance e (llm_manager s) provider_name = Inr (Some p)"
    using assms by (rule store_get_provider_instance_deref)
  have captured: "\<exists>c. deref (fold store_update_groq_api_key keys s1) h
        = Some (GroqProvider mdl
             (py_or (groq_api_key (llm_manager s)) (getenv_GROQ_API_KEY e)) c)"
    if "map_of groq_models provider_name = Some mdl" for mdl
    using resolved that unfolding frame handle
    by (auto simp: get_provider_instance_def GroqProvider_init_def Let_def
        split: sum.splits sdk.splits if_splits)
  have used: "\<exists>r w'. store_generate_summary e h text max_length
                        (fold store_update_groq_api_key keys s1) w = Some (r, w')
        \<and> trace w' = trace w @ [ChatCreate k mdl (summary_prompt text max_length)
                                   (max_length * 2)]"
    if "map_of groq_models provider_name = Some mdl"
      and "groq_api_key (llm_manager s) = Some k" and "k \<noteq> []" and "groq_sdk e = SdkOk"
    for mdl k
  proof -
    from resolved that have "p = GroqProvider mdl (Some k) (Some k)"
      by (simp add: get_provider_instance_def GroqProvider_init_def Let_def
          truthy_def py_or_def)
    with handle have handle: "deref s1 h = Some (GroqProvider mdl (Some k) (Some k))"
      by simp
    have "trace (snd (GroqProvider_generate_summary e (GroqProvider mdl (Some k) (Some k))
              text max_length w))
        = trace w @ [ChatCreate k mdl (summary_prompt text max_length) (max_length * 2)]"
      using GroqProvider_available_request
        [of "GroqProvider mdl (Some k) (Some k)" k e "text" max_length w]
      by simp
    with handle show ?thesis
      unfolding same
      by (cases "GroqProvider_generate_summary e (GroqProvider mdl (Some k) (Some k))
                   text max_length w")
        (simp add: store_generate_summary_def)
  qed
  from frame same captured used show ?thesis
    by blast
qed

theorem handle_keeps_credential_witness:
  "store_get_provider_instance env_online ''Groq - Llama 3 8B''
       \<lparr>llm_manager = manager_with_key, objects = []\<rparr>
     = (Inr (Some 0),
        \<lparr>llm_manager = manager_with_key,
         objects = [GroqProvider ''llama3-8b-8192'' (Some ''gsk_test'') (Some ''gsk_test'')]\<rparr>)
   \<and> groq_api_key (llm_manager (fold store_update_groq_api_key [''gsk_other'', '''']
         \<lparr>llm_manager = manager_with_key,
          objects = [GroqProvider ''llama3-8b-8192'' (Some ''gsk_test'') (Some ''gsk_test'')]\<rparr>))
       = Some ''''
   \<and> deref (fold store_update_groq_api_key [''gsk_other'', '''']
         \<lparr>llm_manager = manager_with_key,
          objects = [GroqProvider ''llama3-8b-8192'' (Some ''gsk_test'') (Some ''gsk_test'')]\<rparr>) 0
       = Some (GroqProvider ''llama3-8b-8192'' (Some ''gsk_test'') (Some ''gsk_test''))
   \<and> (\<exists>r w'. store_generate_summary env_online 0 ''some text'' 150
          (fold store_update_groq_api_key [''gsk_other'', '''']
            \<lparr>llm_manager = manager_with_key,
             objects = [GroqProvider ''llama3-8b-8192'' (Some ''gsk_test'') (Some ''gsk_test'')]\<rparr>)
          world0 = Some (r, w')
        \<and> trace w' = [ChatCreate ''gsk_test'' ''llama3-8b-8192''
                         (summary_prompt ''some text'' 150) 300])"
proof -
  have resolve: "store_get_provider_instance env_online ''Groq - Llama 3 8B''
       \<lparr>llm_manager = manager_with_key, objects = []\<rparr>
     = (Inr (Some 0),
        \<lparr>llm_manager = manager_with_key,
         objects = [GroqProvider ''llama3-8b-8192'' (Some ''gsk_test'') (Some ''gsk_test'')]\<rparr>)"
    by (simp add: store_get_provider_instance_def run_defs Let_def)
  have label: "map_of groq_models ''Groq - Llama 3 8B'' = Some ''llama3-8b-8192''"
    by (simp add: groq_models_def)
  have key: "groq_api_key (llm_manager \<lparr>llm_manager = manager_with_key, objects = []\<rparr>)
      = Some ''gsk_test''"
    and sdk: "groq_sdk env_online = SdkOk"
    by (simp_all add: manager_with_key_def env_online_def)
  have nonempty: "''gsk_test'' \<noteq> []"
    by simp
  note kept = handle_keeps_credential
    [OF resolve, of "[''gsk_other'', '''']" "''some text''" 150 world0]
  from kept label have frame: "deref (fold store_update_groq_api_key [''gsk_other'', '''']
         \<lparr>llm_manager = manager_with_key,
          objects = [GroqProvider ''llama3-8b-8192'' (Some ''gsk_test'') (Some ''gsk_test'')]\<rparr>) 0
       = deref \<lparr>llm_manager = manager_with_key,
          objects = [GroqProvider ''llama3-8b-8192'' (Some ''gsk_test'') (Some ''gsk_test'')]\<rparr> 0"
    by blast
  from kept label key sdk nonempty have used: "\<exists>r w'. store_generate_summary env_online 0 ''some text'' 150
          (fold store_update_groq_api_key [''gsk_other'', '''']
            \<lparr>llm_manager = manager_with_key,
             objects = [GroqProvider ''llama3-8b-8192'' (Some ''gsk_test'') (Some ''gsk_test'')]\<rparr>)
          world0 = Some (r, w')
        \<and> trace w' = trace world0 @ [ChatCreate ''gsk_test'' ''llama3-8b-8192''
                         (summary_prompt ''some text'' 150) (150 * 2)]"
    by blast
  have replaced: "groq_api_key (llm_manager (fold store_update_groq_api_key [''gsk_other'', '''']
         \<lparr>llm_manager = manager_with_key,
          objects = [GroqProvider ''llama3-8b-8192'' (Some ''gsk_test'') (Some ''gsk_test'')]\<rparr>))
       = Some ''''"
    by (simp add: store_update_groq_api_key_def update_groq_api_key_def)
  have start: "trace world0 = []"
    by (simp add: world0_def)
  have current: "deref \<lparr>llm_manager = manager_with_key,
          objects = [GroqProvider ''llama3-8b-8192'' (Some ''gsk_test'') (Some ''gsk_test'')]\<rparr> 0
      = Some (GroqProvider ''llama3-8b-8192'' (Some ''gsk_test'') (Some ''gsk_test''))"
    by (simp add: deref_def)
  from used have used': "\<exists>r w'. store_generate_summary env_online 0 ''some text'' 150
          (fold store_update_groq_api_key [''gsk_other'', '''']
            \<lparr>llm_manager = manager_with_key,
             objects = [GroqProvider ''llama3-8b-8192'' (Some ''gsk_test'') (Some ''gsk_test'')]\<rparr>)
          world0 = Some (r, w')
        \<and> trace w' = [ChatCreate ''gsk_test'' ''llama3-8b-8192''
                         (summary_prompt ''some text'' 150) 300]"
    unfolding start by simp
  from frame current have frame': "deref (fold store_update_groq_api_key [''gsk_other'', '''']
         \<lparr>llm_manager = manager_with_key,
          objects = [GroqProvider ''llama3-8b-8192'' (Some ''gsk_test'') (Some ''gsk_test'')]\<rparr>) 0
       = Some (GroqProvider ''llama3-8b-8192'' (Some ''gsk_test'') (Some ''gsk_test''))"
    by (rule trans)
  from resolve replaced frame' used' show ?thesis
    by (intro conjI)
qed

end
